theory Spec2Isabelle
  imports Main "HOL-Library.AList"
begin

section \<open>Values and errors\<close>

text \<open>
  The messages of the protocol are Python dictionaries built from JSON values. A Python
  \<open>dict\<close> keeps its insertion order and has unique keys, so an object is an association
  list read with \<open>map_of\<close>. Floating point numbers do not occur in any message of the
  protocol and are left out.
\<close>

datatype json =
    JNull
  | JBool bool
  | JInt int
  | JStr string
  | JList "json list"
  | JObj "(string \<times> json) list"

text \<open>
  What a caller can hand to a \<open>send\<close>: a JSON-serialisable value, or an instance of one of
  the message classes (named by its class), which \<open>json.dumps\<close> cannot serialise.
\<close>

datatype pyval = PyJson json | PyObject string

text \<open>The exceptions that the modelled code raises or lets through, with their message or subject.\<close>

datatype error =
    ValueError string
  | TypeError string
  | AttributeError string
  | KeyError string
  | OSError
  | JSONDecodeError

type_synonym bytes = "char list"

section \<open>Framed codec (upm/channel/json_transport.py)\<close>

text \<open>
  The JSON library is not code of this repository. \<open>json_dumps\<close> stands for
  \<open>json.dumps(obj, separators=(",", ":")).encode("utf-8")\<close> on a serialisable value and
  \<open>json_loads\<close> for \<open>json.loads(line.decode("utf-8"))\<close>, which raises on a line that is
  not UTF-8 or not JSON. \<open>connect_ok k\<close> and \<open>write_ok k\<close> say whether the \<open>k\<close>-th call of
  \<open>socket.connect\<close> and of \<open>socket.sendall\<close> returns (rather than raising \<open>OSError\<close>).
  \<open>passthrough_handler\<close> is the callable given to the host service, already applied to its
  metadata; \<open>None\<close> is Python's \<open>None\<close>.
\<close>

record world =
  json_dumps :: "json \<Rightarrow> bytes"
  json_loads :: "bytes \<Rightarrow> error + json"
  connect_ok :: "nat \<Rightarrow> bool"
  write_ok :: "nat \<Rightarrow> bool"
  passthrough_handler :: "(string \<Rightarrow> string \<Rightarrow> bool) option"

text \<open>
  The sending side of a stream: how many times \<open>sendall\<close> was called, and the data of the
  calls that returned, oldest first. \<open>sendall\<close> either writes everything or raises.
\<close>

record channel =
  writes :: nat
  wire :: "bytes list"

definition NL :: char where
  "NL = CHR 0x0A"

text \<open>
  \<open>send\<close>, first line: the bytes \<open>data\<close>, the compact serialisation followed by one newline.
  \<open>json.dumps\<close> raises \<open>TypeError\<close> on an object it cannot serialise.
\<close>

definition send_data :: "world \<Rightarrow> pyval \<Rightarrow> error + bytes" where
  "send_data w obj =
     (case obj of
        PyObject cls \<Rightarrow> Inl (TypeError cls)
      | PyJson j \<Rightarrow> Inr (json_dumps w j @ [NL]))"

text \<open>\<open>send\<close>, second line: \<open>sock.sendall(data)\<close>.\<close>

definition send :: "world \<Rightarrow> pyval \<Rightarrow> channel \<Rightarrow> (error + unit) \<times> channel" where
  "send w obj ch =
     (case send_data w obj of
        Inl e \<Rightarrow> (Inl e, ch)
      | Inr data \<Rightarrow>
          (if write_ok w (writes ch)
           then (Inr (), ch\<lparr>writes := Suc (writes ch), wire := wire ch @ [data]\<rparr>)
           else (Inl OSError, ch\<lparr>writes := Suc (writes ch)\<rparr>)))"

text \<open>\<open>bytes.strip()\<close> removes ASCII whitespace (space, tab, LF, VT, FF, CR) at both ends.\<close>

definition is_space :: "char \<Rightarrow> bool" where
  "is_space c = (c = CHR 0x20 \<or> c = CHR 0x09 \<or> c = CHR 0x0A \<or> c = CHR 0x0B
                 \<or> c = CHR 0x0C \<or> c = CHR 0x0D)"

definition strip :: "bytes \<Rightarrow> bytes" where
  "strip b = rev (dropWhile is_space (rev (dropWhile is_space b)))"

text \<open>\<open>buf.split(b"\n", 1)\<close> for a buffer that holds a newline: the first line and the rest.\<close>

definition split1 :: "bytes \<Rightarrow> bytes \<times> bytes" where
  "split1 buf = (takeWhile (\<lambda>c. c \<noteq> NL) buf, tl (dropWhile (\<lambda>c. c \<noteq> NL) buf))"

text \<open>
  The inner loop of \<open>receive\<close>: while the buffer holds a newline, cut the first line off,
  strip it, and yield its decoding unless it is empty. The result is the messages yielded,
  and then either the exception of \<open>json.loads\<close> that ends the generator or the bytes left
  in the buffer.
\<close>

function drain :: "world \<Rightarrow> bytes \<Rightarrow> json list \<times> (error + bytes)" where
  "drain w buf =
     (if NL \<in> set buf then
        (let line = strip (fst (split1 buf)); rest = snd (split1 buf) in
         if line \<noteq> [] then
           (case json_loads w line of
              Inl e \<Rightarrow> ([], Inl e)
            | Inr msg \<Rightarrow> (msg # fst (drain w rest), snd (drain w rest)))
         else drain w rest)
      else ([], Inr buf))"
  by pat_completeness auto
termination
proof -
  have shorter: "length (snd (split1 buf)) < length buf" if "NL \<in> set buf" for buf
  proof -
    from that have "dropWhile (\<lambda>c. c \<noteq> NL) buf \<noteq> []" by simp
    then have "length (tl (dropWhile (\<lambda>c. c \<noteq> NL) buf)) < length (dropWhile (\<lambda>c. c \<noteq> NL) buf)"
      by simp
    also have "\<dots> \<le> length buf" by (rule length_dropWhile_le)
    finally show ?thesis by (simp add: split1_def)
  qed
  show ?thesis
    by (relation "measure (\<lambda>(w, buf). length buf)") (auto simp: shorter)
qed

declare drain.simps [simp del]

text \<open>
  The outer loop of \<open>receive\<close>, on the results of the successive \<open>recv\<close> calls. An empty
  result, or the end of the list, is the end of the stream: the loop breaks and the
  generator is exhausted (\<open>None\<close>); otherwise it ends with the exception raised.
\<close>

fun receive_loop :: "world \<Rightarrow> bytes \<Rightarrow> bytes list \<Rightarrow> json list \<times> error option" where
  "receive_loop w buf [] = ([], None)"
| "receive_loop w buf (chunk # chunks) =
     (if chunk = [] then ([], None)
      else (case drain w (buf @ chunk) of
              (msgs, Inl e) \<Rightarrow> (msgs, Some e)
            | (msgs, Inr buf') \<Rightarrow>
                (msgs @ fst (receive_loop w buf' chunks), snd (receive_loop w buf' chunks))))"

definition receive :: "world \<Rightarrow> bytes list \<Rightarrow> json list \<times> error option" where
  "receive w chunks = receive_loop w [] chunks"

section \<open>Protocol messages (vsock_bridge/protocols/dpm.py)\<close>

text \<open>
  \<open>d.get(k, default)\<close> on a dictionary; \<open>d.get(k)\<close> is \<open>dict_get d k JNull\<close>. Calling
  \<open>.get\<close> on a value that is not a dictionary raises \<open>AttributeError\<close>.
\<close>

definition dict_get :: "(string \<times> json) list \<Rightarrow> string \<Rightarrow> json \<Rightarrow> json" where
  "dict_get d k dflt = (case map_of d k of None \<Rightarrow> dflt | Some v \<Rightarrow> v)"

definition as_dict :: "json \<Rightarrow> error + (string \<times> json) list" where
  "as_dict v = (case v of JObj d \<Rightarrow> Inr d | _ \<Rightarrow> Inl (AttributeError ''get''))"

text \<open>A \<open>ValueError\<close> carries the name of the field that its message is about.\<close>

definition str_ok :: "json \<Rightarrow> string \<Rightarrow> error + string" where
  "str_ok v name =
     (case v of
        JStr s \<Rightarrow> (if s = [] then Inl (ValueError name) else Inr s)
      | _ \<Rightarrow> Inl (ValueError name))"

definition is_str :: "json \<Rightarrow> bool" where
  "is_str v = (case v of JStr s \<Rightarrow> True | _ \<Rightarrow> False)"

definition the_str :: "json \<Rightarrow> string" where
  "the_str v = (case v of JStr s \<Rightarrow> s | _ \<Rightarrow> [])"

definition is_list_of_str :: "json \<Rightarrow> bool" where
  "is_list_of_str v = (case v of JList xs \<Rightarrow> list_all is_str xs | _ \<Rightarrow> False)"

definition the_list :: "json \<Rightarrow> json list" where
  "the_list v = (case v of JList xs \<Rightarrow> xs | _ \<Rightarrow> [])"

text \<open>The test \<open>v is not None and not isinstance(v, str)\<close>.\<close>

definition not_str_or_none :: "json \<Rightarrow> bool" where
  "not_str_or_none v = (v \<noteq> JNull \<and> \<not> is_str v)"

definition opt_str :: "json \<Rightarrow> string option" where
  "opt_str v = (case v of JStr s \<Rightarrow> Some s | _ \<Rightarrow> None)"

definition opt_json :: "string option \<Rightarrow> json" where
  "opt_json v = (case v of None \<Rightarrow> JNull | Some s \<Rightarrow> JStr s)"

definition get_message_type :: "json \<Rightarrow> error + json" where
  "get_message_type msg =
     (case as_dict msg of Inl e \<Rightarrow> Inl e | Inr d \<Rightarrow> Inr (dict_get d ''type'' JNull))"

subsection \<open>DeviceConnected\<close>

record DeviceConnected =
  dc_device_id :: string
  dc_vendor :: string
  dc_product :: string
  dc_permitted_vms :: "string list"
  dc_current_vm :: "string option"

definition DeviceConnected_init ::
  "json \<Rightarrow> json \<Rightarrow> json \<Rightarrow> json \<Rightarrow> json \<Rightarrow> error + DeviceConnected" where
  "DeviceConnected_init device_id vendor product permitted_vms current_vm =
     (if \<not> is_list_of_str permitted_vms then Inl (ValueError ''device.permitted_vms'')
      else if not_str_or_none current_vm then Inl (ValueError ''device.current_vm'')
      else (case str_ok device_id ''device_id'' of Inl e \<Rightarrow> Inl e | Inr d \<Rightarrow>
           (case str_ok vendor ''vendor'' of Inl e \<Rightarrow> Inl e | Inr v \<Rightarrow>
           (case str_ok product ''product'' of Inl e \<Rightarrow> Inl e | Inr p \<Rightarrow>
              Inr \<lparr>dc_device_id = d, dc_vendor = v, dc_product = p,
                   dc_permitted_vms = map the_str (the_list permitted_vms),
                   dc_current_vm = opt_str current_vm\<rparr>))))"

text \<open>The property \<open>device\<close>: the dictionary \<open>_data["device"]\<close>.\<close>

definition DeviceConnected_device :: "DeviceConnected \<Rightarrow> json" where
  "DeviceConnected_device m =
     JObj [(''device_id'', JStr (dc_device_id m)),
           (''vendor'', JStr (dc_vendor m)),
           (''product'', JStr (dc_product m)),
           (''permitted_vms'', JList (map JStr (dc_permitted_vms m))),
           (''current_vm'', opt_json (dc_current_vm m))]"

definition DeviceConnected_to_json :: "DeviceConnected \<Rightarrow> json" where
  "DeviceConnected_to_json m =
     JObj [(''type'', JStr ''device_connected''),
           (''payload'', JObj [(''device'', DeviceConnected_device m)])]"

definition DeviceConnected_from_payload :: "json \<Rightarrow> error + DeviceConnected" where
  "DeviceConnected_from_payload pl =
     (case as_dict pl of Inl e \<Rightarrow> Inl e | Inr p \<Rightarrow>
        (case dict_get p ''device'' JNull of
           JObj dev \<Rightarrow>
             (case str_ok (dict_get dev ''device_id'' JNull) ''device_id'' of Inl e \<Rightarrow> Inl e | Inr device_id \<Rightarrow>
             (case str_ok (dict_get dev ''vendor'' JNull) ''vendor'' of Inl e \<Rightarrow> Inl e | Inr vendor \<Rightarrow>
             (case str_ok (dict_get dev ''product'' JNull) ''product'' of Inl e \<Rightarrow> Inl e | Inr product \<Rightarrow>
               (let permitted = dict_get dev ''permitted_vms'' (dict_get dev ''permitted-vms'' (JList []));
                    current_vm = dict_get dev ''current_vm'' (dict_get dev ''current-vm'' JNull)
                in if \<not> is_list_of_str permitted then Inl (ValueError ''device.permitted_vms'')
                   else if not_str_or_none current_vm then Inl (ValueError ''device.current_vm'')
                   else DeviceConnected_init (JStr device_id) (JStr vendor) (JStr product)
                          permitted current_vm))))
         | _ \<Rightarrow> Inl (ValueError ''payload.device'')))"

definition DeviceConnected_from_message :: "json \<Rightarrow> error + DeviceConnected option" where
  "DeviceConnected_from_message msg =
     (case as_dict msg of Inl e \<Rightarrow> Inl e | Inr m \<Rightarrow>
        if dict_get m ''type'' JNull \<noteq> JStr ''device_connected'' then Inr None
        else map_sum id Some (DeviceConnected_from_payload (dict_get m ''payload'' (JObj []))))"

subsection \<open>DeviceRemoved\<close>

definition DeviceRemoved_init :: "json \<Rightarrow> error + string" where
  "DeviceRemoved_init device_id = str_ok device_id ''device_id''"

definition DeviceRemoved_to_json :: "string \<Rightarrow> json" where
  "DeviceRemoved_to_json device_id =
     JObj [(''type'', JStr ''device_removed''), (''payload'', JObj [(''device_id'', JStr device_id)])]"

definition DeviceRemoved_from_payload :: "json \<Rightarrow> error + string" where
  "DeviceRemoved_from_payload pl =
     (case as_dict pl of Inl e \<Rightarrow> Inl e
      | Inr p \<Rightarrow> DeviceRemoved_init (dict_get p ''device_id'' JNull))"

definition DeviceRemoved_from_message :: "json \<Rightarrow> error + string option" where
  "DeviceRemoved_from_message msg =
     (case as_dict msg of Inl e \<Rightarrow> Inl e | Inr m \<Rightarrow>
        if dict_get m ''type'' JNull \<noteq> JStr ''device_removed'' then Inr None
        else map_sum id Some (DeviceRemoved_from_payload (dict_get m ''payload'' (JObj []))))"

subsection \<open>PassthroughAck\<close>

text \<open>
  \<open>__init__\<close> checks \<open>reason\<close> and then stores \<open>device_id\<close>, \<open>current_vm\<close> and \<open>status\<close> in
  \<open>_data\<close>: these three are all that an instance holds.
\<close>

record PassthroughAck =
  ack_device_id :: string
  ack_current_vm :: "string option"
  ack_status :: string

definition PassthroughAck_init :: "json \<Rightarrow> json \<Rightarrow> json \<Rightarrow> json \<Rightarrow> error + PassthroughAck" where
  "PassthroughAck_init device_id current_vm status reason =
     (if not_str_or_none current_vm then Inl (ValueError ''current_vm'')
      else if status \<notin> {JStr ''ok'', JStr ''denied'', JStr ''error''} then Inl (ValueError ''status'')
      else if not_str_or_none reason then Inl (ValueError ''reason'')
      else (case str_ok device_id ''device_id'' of Inl e \<Rightarrow> Inl e | Inr d \<Rightarrow>
              Inr \<lparr>ack_device_id = d, ack_current_vm = opt_str current_vm,
                   ack_status = the_str status\<rparr>))"

text \<open>
  Reading \<open>self.reason\<close>: the class declares the properties \<open>device_id\<close>, \<open>current_vm\<close> and
  \<open>status\<close> and the dataclass field \<open>_data\<close>, and \<open>__init__\<close> assigns \<open>_data\<close> only, so the
  attribute lookup raises \<open>AttributeError\<close> on every instance.
\<close>

definition PassthroughAck_reason :: "PassthroughAck \<Rightarrow> error + json" where
  "PassthroughAck_reason a = Inl (AttributeError ''reason'')"

definition PassthroughAck_to_json :: "PassthroughAck \<Rightarrow> error + json" where
  "PassthroughAck_to_json a =
     (let payload = [(''device_id'', JStr (ack_device_id a)),
                     (''current_vm'', opt_json (ack_current_vm a)),
                     (''status'', JStr (ack_status a))]
      in case PassthroughAck_reason a of
           Inl e \<Rightarrow> Inl e
         | Inr reason \<Rightarrow>
             Inr (JObj [(''type'', JStr ''passthrough_ack''),
                        (''payload'', JObj (if reason \<noteq> JNull then payload @ [(''reason'', reason)]
                                            else payload))]))"

definition PassthroughAck_from_payload :: "json \<Rightarrow> error + PassthroughAck" where
  "PassthroughAck_from_payload pl =
     (case as_dict pl of Inl e \<Rightarrow> Inl e | Inr p \<Rightarrow>
        (case str_ok (dict_get p ''device_id'' JNull) ''device_id'' of Inl e \<Rightarrow> Inl e | Inr device_id \<Rightarrow>
           (let current_vm = dict_get p ''current_vm'' (dict_get p ''current-vm'' JNull);
                status = dict_get p ''status'' (JStr ''ok'');
                reason = dict_get p ''reason'' JNull
            in if not_str_or_none current_vm then Inl (ValueError ''current_vm'')
               else if status \<notin> {JStr ''ok'', JStr ''denied'', JStr ''error''} then Inl (ValueError ''status'')
               else if not_str_or_none reason then Inl (ValueError ''reason'')
               else PassthroughAck_init (JStr device_id) current_vm status reason)))"

definition PassthroughAck_from_message :: "json \<Rightarrow> error + PassthroughAck option" where
  "PassthroughAck_from_message msg =
     (case as_dict msg of Inl e \<Rightarrow> Inl e | Inr m \<Rightarrow>
        if dict_get m ''type'' JNull \<noteq> JStr ''passthrough_ack'' then Inr None
        else map_sum id Some (PassthroughAck_from_payload (dict_get m ''payload'' (JObj []))))"

subsection \<open>ConnectedDevices\<close>

text \<open>
  \<open>__init__\<close> walks the items of \<open>devices\<close> in order and raises at the first entry that fails
  a check; the keys of a dictionary that came out of JSON or out of the host registry are
  strings. The instance holds the cleaned dictionary \<open>devices\<close>.
\<close>

definition clean_info :: "json \<Rightarrow> error + json" where
  "clean_info info =
     (case info of
        JObj i \<Rightarrow>
          (case str_ok (dict_get i ''vendor'' JNull) ''vendor'' of Inl e \<Rightarrow> Inl e | Inr vendor \<Rightarrow>
          (case str_ok (dict_get i ''product'' JNull) ''product'' of Inl e \<Rightarrow> Inl e | Inr product \<Rightarrow>
            (let permitted = dict_get i ''permitted_vms'' (dict_get i ''permitted-vms'' (JList []));
                 current_vm = dict_get i ''current_vm'' (dict_get i ''current-vm'' JNull)
             in if \<not> is_list_of_str permitted then Inl (ValueError ''permitted_vms'')
                else if not_str_or_none current_vm then Inl (ValueError ''current_vm'')
                else Inr (JObj [(''vendor'', JStr vendor), (''product'', JStr product),
                                (''permitted_vms'', permitted), (''current_vm'', current_vm)]))))
      | _ \<Rightarrow> Inl (ValueError ''devices''))"

fun ConnectedDevices_init ::
  "(string \<times> json) list \<Rightarrow> (string \<times> json) list \<Rightarrow> error + (string \<times> json) list" where
  "ConnectedDevices_init clean [] = Inr clean"
| "ConnectedDevices_init clean ((did, info) # devices) =
     (case clean_info info of
        Inl e \<Rightarrow> Inl e
      | Inr c \<Rightarrow> ConnectedDevices_init (AList.update did c clean) devices)"

definition ConnectedDevices_to_json :: "(string \<times> json) list \<Rightarrow> json" where
  "ConnectedDevices_to_json devices =
     JObj [(''type'', JStr ''connected_devices''), (''payload'', JObj [(''devices'', JObj devices)])]"

definition ConnectedDevices_from_payload :: "json \<Rightarrow> error + (string \<times> json) list" where
  "ConnectedDevices_from_payload pl =
     (case as_dict pl of Inl e \<Rightarrow> Inl e | Inr p \<Rightarrow>
        (case dict_get p ''devices'' JNull of
           JObj raw \<Rightarrow> ConnectedDevices_init [] raw
         | _ \<Rightarrow> Inl (ValueError ''payload.devices'')))"

definition ConnectedDevices_from_message :: "json \<Rightarrow> error + (string \<times> json) list option" where
  "ConnectedDevices_from_message msg =
     (case as_dict msg of Inl e \<Rightarrow> Inl e | Inr m \<Rightarrow>
        if dict_get m ''type'' JNull \<noteq> JStr ''connected_devices'' then Inr None
        else map_sum id Some (ConnectedDevices_from_payload (dict_get m ''payload'' (JObj []))))"

subsection \<open>GetDevices, Reset and PassthroughRequest\<close>

definition GetDevices_to_json :: json where
  "GetDevices_to_json = JObj [(''type'', JStr ''get_devices''), (''payload'', JObj [])]"

definition Reset_to_json :: json where
  "Reset_to_json = JObj [(''type'', JStr ''reset''), (''payload'', JObj [])]"

record PassthroughRequest =
  req_device_id :: string
  req_target_vm :: string

definition PassthroughRequest_init :: "json \<Rightarrow> json \<Rightarrow> error + PassthroughRequest" where
  "PassthroughRequest_init device_id target_vm =
     (case str_ok device_id ''device_id'' of Inl e \<Rightarrow> Inl e | Inr d \<Rightarrow>
     (case str_ok target_vm ''target_vm'' of Inl e \<Rightarrow> Inl e | Inr t \<Rightarrow>
        Inr \<lparr>req_device_id = d, req_target_vm = t\<rparr>))"

definition PassthroughRequest_to_json :: "PassthroughRequest \<Rightarrow> json" where
  "PassthroughRequest_to_json r =
     JObj [(''type'', JStr ''passthrough_request''),
           (''payload'', JObj [(''device_id'', JStr (req_device_id r)),
                               (''target_vm'', JStr (req_target_vm r))])]"

definition PassthroughRequest_from_payload :: "json \<Rightarrow> error + PassthroughRequest" where
  "PassthroughRequest_from_payload pl =
     (case as_dict pl of Inl e \<Rightarrow> Inl e | Inr p \<Rightarrow>
        (case str_ok (dict_get p ''device_id'' JNull) ''device_id'' of Inl e \<Rightarrow> Inl e | Inr device_id \<Rightarrow>
        (case str_ok (dict_get p ''target_vm'' JNull) ''target_vm'' of Inl e \<Rightarrow> Inl e | Inr target_vm \<Rightarrow>
           PassthroughRequest_init (JStr device_id) (JStr target_vm))))"

definition PassthroughRequest_from_message :: "json \<Rightarrow> error + PassthroughRequest option" where
  "PassthroughRequest_from_message msg =
     (case as_dict msg of Inl e \<Rightarrow> Inl e | Inr m \<Rightarrow>
        if dict_get m ''type'' JNull \<noteq> JStr ''passthrough_request'' then Inr None
        else map_sum id Some (PassthroughRequest_from_payload (dict_get m ''payload'' (JObj []))))"

section \<open>Reconnecting client (vsock_bridge/vsock.py, class VsockClient)\<close>

text \<open>
  \<open>conn\<close> says whether \<open>self.conn\<close> holds a socket; \<open>connects\<close> counts the calls of
  \<open>socket.connect\<close>, \<open>disconnects\<close> the calls of the \<open>on_disconnect\<close> callback, and \<open>chan\<close> is the
  sending side of the stream.
\<close>

record client =
  conn :: bool
  connects :: nat
  disconnects :: nat
  chan :: channel

text \<open>
  The loop of \<open>server\<close>: call \<open>connect\<close> until it returns, sleeping between the tries. It
  has no bound, so a peer that never appears keeps it running forever (\<open>None\<close>). The result
  is the number of \<open>connect\<close> calls made so far.
\<close>

partial_function (option) connect_loop :: "world \<Rightarrow> nat \<Rightarrow> nat option" where
  "connect_loop w k = (if connect_ok w k then Some (Suc k) else connect_loop w (Suc k))"

definition server :: "world \<Rightarrow> client \<Rightarrow> client option" where
  "server w c =
     (if \<not> conn c then
        (case connect_loop w (connects c) of
           None \<Rightarrow> None
         | Some k \<Rightarrow> Some (c\<lparr>conn := True, connects := k\<rparr>))
      else Some c)"

definition close_connection :: "client \<Rightarrow> client" where
  "close_connection c =
     (if conn c then c\<lparr>conn := False, disconnects := Suc (disconnects c)\<rparr> else c)"

text \<open>
  \<open>VsockClient.send\<close>: the body of \<open>for _ in range(5)\<close>, with the number of rounds left. A
  round that raises closes the connection and goes on to the next one.
\<close>

fun send_rounds :: "world \<Rightarrow> nat \<Rightarrow> pyval \<Rightarrow> client \<Rightarrow> (bool \<times> client) option" where
  "send_rounds w 0 data c = Some (False, c)"
| "send_rounds w (Suc n) data c =
     (case server w c of
        None \<Rightarrow> None
      | Some c1 \<Rightarrow>
          (case send w data (chan c1) of
             (Inr u, ch) \<Rightarrow> Some (True, c1\<lparr>chan := ch\<rparr>)
           | (Inl e, ch) \<Rightarrow> send_rounds w n data (close_connection (c1\<lparr>chan := ch\<rparr>))))"

definition VsockClient_send :: "world \<Rightarrow> pyval \<Rightarrow> client \<Rightarrow> (bool \<times> client) option" where
  "VsockClient_send w data c = send_rounds w 5 data c"

section \<open>Host service (upm/host/service.py, class HostService)\<close>

text \<open>
  An entry of the host registry, with the types of the parameters of
  \<open>notify_device_connected\<close>. \<open>handler_calls\<close> records the calls of the passthrough handler,
  the external operation that attaches the device, oldest first. Logging and the flag
  \<open>connected\<close>, which no operation reads, are left out.
\<close>

record device =
  device_id :: string
  vendor :: string
  product :: string
  permitted_vms :: "string list"
  current_vm :: string

record host =
  gui_vm :: client
  device_registry :: "(string \<times> device) list"
  handler_calls :: "(string \<times> string) list"

text \<open>The dictionary stored in the registry for a device, with the keys of the source.\<close>

definition device_info :: "device \<Rightarrow> json" where
  "device_info d =
     JObj [(''device_id'', JStr (device_id d)),
           (''vendor'', JStr (vendor d)),
           (''product'', JStr (product d)),
           (''permitted-vms'', JList (map JStr (permitted_vms d))),
           (''current-vm'', JStr (current_vm d))]"

text \<open>\<open>self.gui_vm.send(obj)\<close>.\<close>

definition gui_vm_send :: "world \<Rightarrow> pyval \<Rightarrow> host \<Rightarrow> (bool \<times> host) option" where
  "gui_vm_send w obj h =
     (case VsockClient_send w obj (gui_vm h) of
        None \<Rightarrow> None
      | Some (sent, c) \<Rightarrow> Some (sent, h\<lparr>gui_vm := c\<rparr>))"

text \<open>
  Every operation returns \<open>None\<close> when it never returns, and otherwise the value returned
  or the exception raised, with the state it leaves behind.
\<close>

definition notify_device_connected ::
  "world \<Rightarrow> string \<Rightarrow> string \<Rightarrow> string \<Rightarrow> string list \<Rightarrow> string \<Rightarrow> host
     \<Rightarrow> ((error + bool) \<times> host) option" where
  "notify_device_connected w dev_id vend prd permitted cur h =
     (if map_of (device_registry h) dev_id = None then
        (let h1 = h\<lparr>device_registry :=
                      AList.update dev_id
                        \<lparr>device_id = dev_id, vendor = vend, product = prd,
                         permitted_vms = permitted, current_vm = cur\<rparr>
                        (device_registry h)\<rparr>
         in case DeviceConnected_init (JStr dev_id) (JStr vend) (JStr prd)
                   (JList (map JStr permitted)) (JStr cur) of
              Inl e \<Rightarrow> Some (Inl e, h1)
            | Inr m \<Rightarrow>
                (case gui_vm_send w (PyJson (DeviceConnected_to_json m)) h1 of
                   None \<Rightarrow> None
                 | Some (sent, h2) \<Rightarrow> Some (Inr sent, h2)))
      else Some (Inr True, h))"

text \<open>\<open>reset\<close> hands the \<open>Reset\<close> instance itself to \<open>send\<close>.\<close>

definition reset :: "world \<Rightarrow> host \<Rightarrow> ((error + bool) \<times> host) option" where
  "reset w h =
     (let h1 = h\<lparr>device_registry := []\<rparr>
      in case gui_vm_send w (PyObject ''Reset'') h1 of
           None \<Rightarrow> None
         | Some (sent, h2) \<Rightarrow> Some (Inr sent, h2))"

definition notify_device_disconnected ::
  "world \<Rightarrow> string \<Rightarrow> host \<Rightarrow> ((error + bool) \<times> host) option" where
  "notify_device_disconnected w dev_id h =
     (if map_of (device_registry h) dev_id = None then Some (Inr False, h)
      else
        (let h1 = h\<lparr>device_registry := AList.delete dev_id (device_registry h)\<rparr>
         in case DeviceRemoved_init (JStr dev_id) of
              Inl e \<Rightarrow> Some (Inl e, h1)
            | Inr d \<Rightarrow>
                (case gui_vm_send w (PyJson (DeviceRemoved_to_json d)) h1 of
                   None \<Rightarrow> None
                 | Some (sent, h2) \<Rightarrow> Some (Inr sent, h2))))"

definition notify_device_passthrough ::
  "world \<Rightarrow> string \<Rightarrow> string \<Rightarrow> host \<Rightarrow> ((error + bool) \<times> host) option" where
  "notify_device_passthrough w dev_id new_vm h =
     (case map_of (device_registry h) dev_id of
        None \<Rightarrow> Some (Inr False, h)
      | Some d \<Rightarrow>
          if new_vm \<in> set (permitted_vms d) then
            if new_vm \<noteq> current_vm d then
              (let h1 = h\<lparr>device_registry :=
                            AList.update dev_id (d\<lparr>current_vm := new_vm\<rparr>) (device_registry h)\<rparr>
               in case PassthroughAck_init (JStr dev_id) (JStr new_vm) (JStr ''ok'') JNull of
                    Inl e \<Rightarrow> Some (Inl e, h1)
                  | Inr ack \<Rightarrow>
                      (case PassthroughAck_to_json ack of
                         Inl e \<Rightarrow> Some (Inl e, h1)
                       | Inr j \<Rightarrow>
                           (case gui_vm_send w (PyJson j) h1 of
                              None \<Rightarrow> None
                            | Some (sent, h2) \<Rightarrow> Some (Inr sent, h2))))
            else Some (Inr True, h)
          else Some (Inr False, h))"

text \<open>
  \<open>handle_request\<close>, the \<open>on_message\<close> callback of the host. It returns nothing; an
  exception raised while decoding or answering leaves it.
\<close>

definition handle_request :: "world \<Rightarrow> json \<Rightarrow> host \<Rightarrow> ((error + unit) \<times> host) option" where
  "handle_request w msg h =
     (case get_message_type msg of
        Inl e \<Rightarrow> Some (Inl e, h)
      | Inr msgtype \<Rightarrow>
          if msgtype = JStr ''get_devices'' then
            (case ConnectedDevices_init []
                    (map (\<lambda>(k, d). (k, device_info d)) (device_registry h)) of
               Inl e \<Rightarrow> Some (Inl e, h)
             | Inr devices \<Rightarrow>
                 (case gui_vm_send w (PyJson (ConnectedDevices_to_json devices)) h of
                    None \<Rightarrow> None
                  | Some (sent, h1) \<Rightarrow> Some (Inr (), h1)))
          else if msgtype = JStr ''passthrough_request'' then
            (case PassthroughRequest_from_message msg of
               Inl e \<Rightarrow> Some (Inl e, h)
             | Inr None \<Rightarrow> Some (Inl (AttributeError ''device_id''), h)
             | Inr (Some r) \<Rightarrow>
                 if map_of (device_registry h) (req_device_id r) \<noteq> None then
                   (case passthrough_handler w of
                      None \<Rightarrow> Some (Inl (TypeError ''NoneType''), h)
                    | Some execute \<Rightarrow>
                        (let h1 = h\<lparr>handler_calls :=
                                      handler_calls h @ [(req_device_id r, req_target_vm r)]\<rparr>
                         in if execute (req_device_id r) (req_target_vm r) then
                              (case notify_device_passthrough w (req_device_id r) (req_target_vm r) h1 of
                                 None \<Rightarrow> None
                               | Some (Inl e, h2) \<Rightarrow> Some (Inl e, h2)
                               | Some (Inr notified, h2) \<Rightarrow> Some (Inr (), h2))
                            else Some (Inr (), h1)))
                 else Some (Inr (), h))
          else Some (Inr (), h))"

section \<open>Guest mirror (upm/guest/device_registry.py, class DeviceRegister)\<close>

text \<open>
  The mirror maps a device id to the dictionary received for it. Writing the registry file
  and showing the pop-up for a new device are left out: they are outside the registry, and
  \<open>atomic_write_registry\<close> catches its own exceptions.
\<close>

record DeviceRegister =
  mirror :: "(string \<times> json) list"

definition on_msg :: "json \<Rightarrow> DeviceRegister \<Rightarrow> (error + unit) \<times> DeviceRegister" where
  "on_msg msg g =
     (case get_message_type msg of
        Inl e \<Rightarrow> (Inl e, g)
      | Inr msgtype \<Rightarrow>
          if msgtype = JStr ''device_connected'' then
            (case DeviceConnected_from_message msg of
               Inl e \<Rightarrow> (Inl e, g)
             | Inr None \<Rightarrow> (Inl (AttributeError ''device_id''), g)
             | Inr (Some dev) \<Rightarrow>
                 (Inr (), g\<lparr>mirror := AList.update (dc_device_id dev) (DeviceConnected_device dev)
                                          (mirror g)\<rparr>))
          else if msgtype = JStr ''device_removed'' then
            (case DeviceRemoved_from_message msg of
               Inl e \<Rightarrow> (Inl e, g)
             | Inr None \<Rightarrow> (Inl (AttributeError ''device_id''), g)
             | Inr (Some dev_id) \<Rightarrow>
                 if map_of (mirror g) dev_id \<noteq> None
                 then (Inr (), g\<lparr>mirror := AList.delete dev_id (mirror g)\<rparr>)
                 else (Inr (), g))
          else if msgtype = JStr ''connected_devices'' then
            (case ConnectedDevices_from_message msg of
               Inl e \<Rightarrow> (Inl e, g)
             | Inr None \<Rightarrow> (Inl (AttributeError ''devices''), g)
             | Inr (Some devices) \<Rightarrow> (Inr (), g\<lparr>mirror := devices\<rparr>))
          else if msgtype = JStr ''passthrough_ack'' then
            (case PassthroughAck_from_message msg of
               Inl e \<Rightarrow> (Inl e, g)
             | Inr None \<Rightarrow> (Inl (AttributeError ''status''), g)
             | Inr (Some ack) \<Rightarrow>
                 if ack_status ack = ''ok'' then
                   (case map_of (mirror g) (ack_device_id ack) of
                      None \<Rightarrow> (Inl (KeyError (ack_device_id ack)), g)
                    | Some (JObj entry) \<Rightarrow>
                        (Inr (), g\<lparr>mirror :=
                                     AList.update (ack_device_id ack)
                                       (JObj (AList.update ''current_vm''
                                                (opt_json (ack_current_vm ack)) entry))
                                       (mirror g)\<rparr>)
                    | Some other \<Rightarrow> (Inl (TypeError ''current_vm''), g))
                 else (Inr (), g))
          else if msgtype = JStr ''reset'' then (Inr (), g\<lparr>mirror := []\<rparr>)
          else (Inr (), g))"

section \<open>Concrete inputs\<close>

text \<open>
  A world to run the model in. \<open>example_dumps\<close> writes compact JSON; it copies strings as
  they are, so it is used on strings that need no escaping only.
  \<open>example_loads\<close> decodes the lines that are the encoding of one of the messages it is
  given and rejects every other line.
\<close>

fun digits :: "nat \<Rightarrow> bytes" where
  "digits n =
     (if n < 10 then [char_of (48 + n)] else digits (n div 10) @ [char_of (48 + n mod 10)])"

declare digits.simps [simp del]

fun example_dumps :: "json \<Rightarrow> bytes"
  and example_dumps_items :: "json list \<Rightarrow> bytes"
  and example_dumps_members :: "(string \<times> json) list \<Rightarrow> bytes" where
  "example_dumps JNull = ''null''"
| "example_dumps (JBool b) = (if b then ''true'' else ''false'')"
| "example_dumps (JInt i) = (if i < 0 then ''-'' @ digits (nat (- i)) else digits (nat i))"
| "example_dumps (JStr s) = [CHR 0x22] @ s @ [CHR 0x22]"
| "example_dumps (JList xs) = ''['' @ example_dumps_items xs @ '']''"
| "example_dumps (JObj kvs) = ''{'' @ example_dumps_members kvs @ ''}''"
| "example_dumps_items [] = []"
| "example_dumps_items [x] = example_dumps x"
| "example_dumps_items (x # y # ys) = example_dumps x @ '','' @ example_dumps_items (y # ys)"
| "example_dumps_members [] = []"
| "example_dumps_members [(k, v)] = [CHR 0x22] @ k @ [CHR 0x22] @ '':'' @ example_dumps v"
| "example_dumps_members ((k, v) # kv # kvs) =
     [CHR 0x22] @ k @ [CHR 0x22] @ '':'' @ example_dumps v @ '','' @ example_dumps_members (kv # kvs)"

definition example_loads :: "json list \<Rightarrow> bytes \<Rightarrow> error + json" where
  "example_loads known line =
     (case find (\<lambda>j. example_dumps j = line) known of
        None \<Rightarrow> Inl JSONDecodeError
      | Some j \<Rightarrow> Inr j)"

definition request_json :: "string \<Rightarrow> string \<Rightarrow> json" where
  "request_json dev_id target_vm =
     PassthroughRequest_to_json \<lparr>req_device_id = dev_id, req_target_vm = target_vm\<rparr>"

definition example_world :: world where
  "example_world =
     \<lparr>json_dumps = example_dumps,
      json_loads = example_loads [GetDevices_to_json, request_json ''D'' ''vm-b''],
      connect_ok = (\<lambda>k. True),
      write_ok = (\<lambda>k. True),
      passthrough_handler = Some (\<lambda>dev_id target_vm. True)\<rparr>"

text \<open>
  The registry of the specification's examples: device \<open>D\<close>, permitted on \<open>vm-a\<close> and
  \<open>vm-b\<close>, now on \<open>vm-a\<close>; the client is connected and has written nothing.
\<close>

definition example_device :: device where
  "example_device =
     \<lparr>device_id = ''D'', vendor = ''acme'', product = ''stick'',
      permitted_vms = [''vm-a'', ''vm-b''], current_vm = ''vm-a''\<rparr>"

definition example_client :: client where
  "example_client = \<lparr>conn = True, connects = 1, disconnects = 0, chan = \<lparr>writes = 0, wire = []\<rparr>\<rparr>"

definition example_host :: host where
  "example_host =
     \<lparr>gui_vm = example_client, device_registry = [(''D'', example_device)], handler_calls = []\<rparr>"

text \<open>The \<open>device_connected\<close> message for device \<open>D\<close>, on the VM given.\<close>

definition example_connected :: "string option \<Rightarrow> json" where
  "example_connected cur =
     DeviceConnected_to_json
       \<lparr>dc_device_id = ''D'', dc_vendor = ''acme'', dc_product = ''stick'',
        dc_permitted_vms = [''vm-a'', ''vm-b''], dc_current_vm = cur\<rparr>"

section \<open>The framed codec: properties\<close>

lemmas example_simps =
  example_world_def example_client_def GetDevices_to_json_def request_json_def
  PassthroughRequest_to_json_def example_loads_def NL_def strip_def is_space_def

subsection \<open>The inner loop works line by line\<close>

lemma split1_line: "NL \<notin> set l \<Longrightarrow> split1 (l @ NL # rest) = (l, rest)"
  by (induction l) (auto simp: split1_def)

lemma drain_no_nl: "NL \<notin> set buf \<Longrightarrow> drain w buf = ([], Inr buf)"
  by (simp add: drain.simps)

lemma drain_line:
  "NL \<notin> set l \<Longrightarrow>
   drain w (l @ NL # rest) =
     (if strip l \<noteq> [] then
        (case json_loads w (strip l) of
           Inl e \<Rightarrow> ([], Inl e)
         | Inr msg \<Rightarrow> (msg # fst (drain w rest), snd (drain w rest)))
      else drain w rest)"
  by (subst drain.simps) (simp add: split1_line Let_def)

lemma drain_leftover: "drain w buf = (ms, Inr r) \<Longrightarrow> NL \<notin> set r"
proof (induction buf arbitrary: ms rule: length_induct)
  case (1 buf)
  show ?case
  proof (cases "NL \<in> set buf")
    case False
    with "1.prems" show ?thesis by (simp add: drain_no_nl)
  next
    case True
    then obtain l rest where buf: "buf = l @ NL # rest" and l: "NL \<notin> set l"
      by (auto dest: split_list_first)
    from buf have len: "length rest < length buf" by simp
    have "\<exists>ms'. drain w rest = (ms', Inr r)"
      using "1.prems" unfolding buf drain_line [OF l]
      by (cases "drain w rest") (auto split: if_splits sum.splits)
    with "1.IH" len show ?thesis by blast
  qed
qed

lemma drain_append:
  "drain w (x @ y) =
     (case drain w x of
        (ms, Inl e) \<Rightarrow> (ms, Inl e)
      | (ms, Inr r) \<Rightarrow> (ms @ fst (drain w (r @ y)), snd (drain w (r @ y))))"
proof (induction x rule: length_induct)
  case (1 x)
  show ?case
  proof (cases "NL \<in> set x")
    case False
    then show ?thesis by (simp add: drain_no_nl)
  next
    case True
    then obtain l rest where x: "x = l @ NL # rest" and l: "NL \<notin> set l"
      by (auto dest: split_list_first)
    from x have len: "length rest < length x" by simp
    with "1.IH" have IH: "drain w (rest @ y) =
     (case drain w rest of
        (ms, Inl e) \<Rightarrow> (ms, Inl e)
      | (ms, Inr r) \<Rightarrow> (ms @ fst (drain w (r @ y)), snd (drain w (r @ y))))"
      by blast
    have xy: "x @ y = l @ NL # (rest @ y)" by (simp add: x)
    show ?thesis
      unfolding xy drain_line [OF l] unfolding x drain_line [OF l] IH
      by (simp split: prod.splits sum.splits)
  qed
qed


lemma receive_loop_concat:
  "[] \<notin> set cs \<Longrightarrow> NL \<notin> set buf \<Longrightarrow>
   receive_loop w buf cs =
     (case drain w (buf @ concat cs) of
        (ms, Inl e) \<Rightarrow> (ms, Some e)
      | (ms, Inr b) \<Rightarrow> (ms, None))"
proof (induction cs arbitrary: buf)
  case Nil
  then show ?case by (simp add: drain_no_nl)
next
  case (Cons c cs)
  obtain ms res where d: "drain w (buf @ c) = (ms, res)" by (cases "drain w (buf @ c)")
  have app: "drain w (buf @ concat (c # cs)) =
     (case drain w (buf @ c) of
        (ms, Inl e) \<Rightarrow> (ms, Inl e)
      | (ms, Inr r) \<Rightarrow> (ms @ fst (drain w (r @ concat cs)), snd (drain w (r @ concat cs))))"
    using drain_append [of w "buf @ c" "concat cs"] by simp
  show ?case
  proof (cases res)
    case (Inl e)
    with d Cons.prems show ?thesis
      unfolding app by auto
  next
    case (Inr r)
    with d have "NL \<notin> set r" by (auto dest: drain_leftover)
    with Cons.IH [of r] Cons.prems have "receive_loop w r cs =
       (case drain w (r @ concat cs) of
          (ms, Inl e) \<Rightarrow> (ms, Some e)
        | (ms, Inr b) \<Rightarrow> (ms, None))"
      by simp
    with Inr d Cons.prems show ?thesis
      unfolding app by (auto split: prod.splits sum.splits)
  qed
qed

lemma drain_frames:
  assumes "\<forall>E \<in> set Es. NL \<notin> set (json_dumps w E) \<and> strip (json_dumps w E) \<noteq> []
             \<and> json_loads w (strip (json_dumps w E)) = Inr E"
  shows "drain w (concat (map (\<lambda>E. json_dumps w E @ [NL]) Es)) = (Es, Inr [])"
  using assms
proof (induction Es)
  case Nil
  then show ?case by (simp add: drain_no_nl)
next
  case (Cons E Es)
  then have E: "NL \<notin> set (json_dumps w E)" "strip (json_dumps w E) \<noteq> []"
    "json_loads w (strip (json_dumps w E)) = Inr E" by simp_all
  from Cons have IH: "drain w (concat (map (\<lambda>E. json_dumps w E @ [NL]) Es)) = (Es, Inr [])"
    by simp
  show ?case
    using drain_line [OF E(1), of w "concat (map (\<lambda>E. json_dumps w E @ [NL]) Es)"] E IH
    by simp
qed

lemma receive_loop_tail:
  "NL \<notin> set buf \<Longrightarrow> NL \<notin> set (concat tail) \<Longrightarrow> receive_loop w buf tail = ([], None)"
proof (induction tail arbitrary: buf)
  case Nil
  then show ?case by simp
next
  case (Cons c tail)
  then have "NL \<notin> set (buf @ c)" "NL \<notin> set (concat tail)" by simp_all
  with Cons.IH [of "buf @ c"] show ?case by (simp add: drain_no_nl)
qed

lemma receive_loop_append_tail:
  "NL \<notin> set buf \<Longrightarrow> NL \<notin> set (concat tail) \<Longrightarrow>
   receive_loop w buf (chunks @ tail) = receive_loop w buf chunks"
proof (induction chunks arbitrary: buf)
  case Nil
  then show ?case by (simp add: receive_loop_tail)
next
  case (Cons c chunks)
  show ?case
  proof (cases "drain w (buf @ c)")
    case (Pair ms res)
    show ?thesis
    proof (cases res)
      case (Inl e)
      with Pair show ?thesis by simp
    next
      case (Inr r)
      with Pair have "NL \<notin> set r" by (auto dest: drain_leftover)
      with Cons.IH [of r] Cons.prems Pair Inr show ?thesis by simp
    qed
  qed
qed

text \<open>
  C6 (framing round trip). An envelope \<open>E\<close> that \<open>send\<close> has written, read back by
  \<open>receive\<close> in any non-empty reads, is decoded to exactly \<open>E\<close>, and the generator then ends
  without an error. The JSON library is asked for what makes \<open>E\<close> a valid envelope: its
  compact serialisation holds no raw newline, is not blank, and is decoded back to \<open>E\<close>.
\<close>

theorem framing_round_trip:
  assumes "send w (PyJson E) ch = (Inr (), ch')"
    and "concat chunks = last (wire ch')"
    and "[] \<notin> set chunks"
    and "NL \<notin> set (json_dumps w E)"
    and "strip (json_dumps w E) \<noteq> []"
    and "json_loads w (strip (json_dumps w E)) = Inr E"
  shows "receive w chunks = ([E], None)"
proof -
  from assms(1) have "wire ch' = wire ch @ [json_dumps w E @ [NL]]"
    by (auto simp: send_def send_data_def split: if_splits)
  with assms(2) have "concat chunks = json_dumps w E @ [NL]" by simp
  moreover have "drain w (json_dumps w E @ [NL]) = ([E], Inr [])"
    using drain_line [OF assms(4), of w "[]"] assms(5,6) by (simp add: drain_no_nl)
  ultimately show ?thesis
    using receive_loop_concat [OF assms(3), of "[]" w] by (simp add: receive_def)
qed

text \<open>The round trip of \<open>get_devices\<close>, read back in two reads that cut the line.\<close>

theorem framing_round_trip_witness:
  "receive example_world
     [take 9 (example_dumps GetDevices_to_json),
      drop 9 (example_dumps GetDevices_to_json) @ [NL]]
   = ([GetDevices_to_json], None)"
proof -
  let ?ch' = "\<lparr>writes = 1, wire = [example_dumps GetDevices_to_json @ [NL]]\<rparr>"
  have 1: "send example_world (PyJson GetDevices_to_json) (chan example_client) = (Inr (), ?ch')"
    by (simp add: send_def send_data_def example_simps)
  have 2: "concat [take 9 (example_dumps GetDevices_to_json),
                   drop 9 (example_dumps GetDevices_to_json) @ [NL]] = last (wire ?ch')"
    by simp
  have 3: "[] \<notin> set [take 9 (example_dumps GetDevices_to_json),
                       drop 9 (example_dumps GetDevices_to_json) @ [NL]]"
    by (simp add: example_simps)
  have 4: "NL \<notin> set (json_dumps example_world GetDevices_to_json)"
    by (simp add: example_simps)
  have 5: "strip (json_dumps example_world GetDevices_to_json) \<noteq> []"
    by (simp add: example_simps)
  have 6: "json_loads example_world (strip (json_dumps example_world GetDevices_to_json))
             = Inr GetDevices_to_json"
    by (simp add: example_simps)
  show ?thesis by (rule framing_round_trip [OF 1 2 3 4 5 6])
qed

text \<open>
  C7 (line independence). Let \<open>frames\<close> be the byte strings that \<open>send\<close> builds for the
  envelopes \<open>Es\<close>. However their concatenation is cut into non-empty reads, also in the
  middle of a line, \<open>receive\<close> yields exactly \<open>Es\<close>, in order, and ends without an error.
\<close>

theorem line_independence:
  assumes "\<forall>E \<in> set Es. NL \<notin> set (json_dumps w E) \<and> strip (json_dumps w E) \<noteq> []
             \<and> json_loads w (strip (json_dumps w E)) = Inr E"
    and "map (\<lambda>E. send_data w (PyJson E)) Es = map Inr frames"
    and "[] \<notin> set chunks"
    and "concat chunks = concat frames"
  shows "receive w chunks = (Es, None)"
proof -
  let ?frame = "\<lambda>E. json_dumps w E @ [NL]"
  have "map (\<lambda>E. send_data w (PyJson E)) Es = map Inr (map ?frame Es)"
    by (simp add: send_data_def)
  with assms(2) have eq: "map Inr frames = (map Inr (map ?frame Es) :: (error + bytes) list)"
    by (simp del: map_map)
  have "inj (Inr :: bytes \<Rightarrow> error + bytes)" by simp
  from map_injective [OF eq this] have "frames = map ?frame Es" .
  with assms(4) have "concat chunks = concat (map (\<lambda>E. json_dumps w E @ [NL]) Es)" by simp
  with drain_frames [OF assms(1)] receive_loop_concat [OF assms(3), of "[]" w]
  show ?thesis by (simp add: receive_def)
qed

text \<open>Two messages read back in three reads, each cut in the middle of a line.\<close>

theorem line_independence_witness:
  "receive example_world
     [take 5 (example_dumps GetDevices_to_json),
      drop 5 (example_dumps GetDevices_to_json) @ [NL] @ take 7 (example_dumps (request_json ''D'' ''vm-b'')),
      drop 7 (example_dumps (request_json ''D'' ''vm-b'')) @ [NL]]
   = ([GetDevices_to_json, request_json ''D'' ''vm-b''], None)"
proof -
  let ?Es = "[GetDevices_to_json, request_json ''D'' ''vm-b'']"
  let ?frames = "[example_dumps GetDevices_to_json @ [NL],
                  example_dumps (request_json ''D'' ''vm-b'') @ [NL]]"
  let ?chunks = "[take 5 (example_dumps GetDevices_to_json),
      drop 5 (example_dumps GetDevices_to_json) @ [NL] @ take 7 (example_dumps (request_json ''D'' ''vm-b'')),
      drop 7 (example_dumps (request_json ''D'' ''vm-b'')) @ [NL]]"
  have 1: "\<forall>E \<in> set ?Es. NL \<notin> set (json_dumps example_world E)
             \<and> strip (json_dumps example_world E) \<noteq> []
             \<and> json_loads example_world (strip (json_dumps example_world E)) = Inr E"
    by (simp add: example_simps)
  have 2: "map (\<lambda>E. send_data example_world (PyJson E)) ?Es = map Inr ?frames"
    by (simp add: send_data_def example_world_def)
  have 3: "[] \<notin> set ?chunks" by (simp add: example_simps)
  have 4: "concat ?chunks = concat ?frames"
    by (simp add: example_simps)
  show ?thesis by (rule line_independence [OF 1 2 3 4])
qed

text \<open>
  What \<open>receive\<close> yields is decided by the bytes up to the last newline: bytes after it,
  wherever the reads cut the stream, do not count.
\<close>

lemma receive_terminated_part:
  assumes "[] \<notin> set chunks" and "concat chunks = body @ tail" and "NL \<notin> set tail"
  shows "receive w chunks = receive w [body]"
proof -
  obtain ms res where d: "drain w body = (ms, res)" by (cases "drain w body")
  note app = drain_append [of w body tail]
  have whole: "drain w (body @ tail) =
      (case res of Inl e \<Rightarrow> (ms, Inl e) | Inr r \<Rightarrow> (ms, Inr (r @ tail)))"
  proof (cases res)
    case (Inl e)
    with d app show ?thesis by simp
  next
    case (Inr r)
    with d have "NL \<notin> set r" by (auto dest: drain_leftover)
    with assms(3) have "drain w (r @ tail) = ([], Inr (r @ tail))" by (simp add: drain_no_nl)
    with d Inr app show ?thesis by simp
  qed
  have l: "receive w chunks = (case res of Inl e \<Rightarrow> (ms, Some e) | Inr r \<Rightarrow> (ms, None))"
    using receive_loop_concat [OF assms(1), of "[]" w] assms(2) whole
    by (simp add: receive_def split: sum.splits)
  have r: "receive w [body] = (case res of Inl e \<Rightarrow> (ms, Some e) | Inr r \<Rightarrow> (ms, None))"
  proof (cases "body = []")
    case True
    with d have "ms = []" "res = Inr []" by (simp_all add: drain_no_nl)
    with True show ?thesis by (simp add: receive_def)
  next
    case False
    with d show ?thesis by (simp add: receive_def split: sum.splits)
  qed
  from l r show ?thesis by simp
qed

text \<open>
  C10 (an unterminated tail is dropped). Let the stream, read in any non-empty reads, be
  \<open>body\<close> followed by bytes \<open>tail\<close> that hold no newline, whether \<open>tail\<close> arrives in reads
  of its own or shares a read with the end of \<open>body\<close>. Then \<open>receive\<close> yields exactly what
  it yields on \<open>body\<close> alone and ends the same way, so the tail gives no message and no
  error; and \<open>tail\<close> alone yields nothing. The same holds for whole reads without a
  newline that arrive last, after any reads at all.
\<close>

theorem unterminated_tail_discarded:
  assumes "NL \<notin> set tail" and "NL \<notin> set (concat reads)"
  shows "([] \<notin> set chunks \<and> concat chunks = body @ tail \<longrightarrow> receive w chunks = receive w [body])
       \<and> receive w [tail] = ([], None)
       \<and> receive w (chunks @ reads) = receive w chunks \<and> receive w reads = ([], None)"
proof (intro conjI impI)
  assume "[] \<notin> set chunks \<and> concat chunks = body @ tail"
  then show "receive w chunks = receive w [body]"
    using assms(1) by (blast intro: receive_terminated_part)
next
  show "receive w [tail] = ([], None)"
    using assms(1) by (simp add: receive_def drain_no_nl)
next
  show "receive w (chunks @ reads) = receive w chunks"
    using assms(2) by (simp add: receive_def receive_loop_append_tail)
next
  show "receive w reads = ([], None)"
    using assms(2) by (simp add: receive_def receive_loop_tail)
qed

text \<open>
  A complete line and a whole second message without its newline, in a single read: only
  the first is decoded. Then a complete line followed by a read of seven bytes.
\<close>

theorem unterminated_tail_discarded_witness:
  "receive example_world
     [example_dumps GetDevices_to_json @ [NL] @ example_dumps (request_json ''D'' ''vm-b'')]
   = ([GetDevices_to_json], None)
   \<and> receive example_world [example_dumps (request_json ''D'' ''vm-b'')] = ([], None)
   \<and> receive example_world
       ([example_dumps GetDevices_to_json @ [NL]] @ [take 7 (example_dumps (request_json ''D'' ''vm-b''))])
     = receive example_world [example_dumps GetDevices_to_json @ [NL]]
   \<and> receive example_world [take 7 (example_dumps (request_json ''D'' ''vm-b''))] = ([], None)"
proof -
  let ?body = "example_dumps GetDevices_to_json @ [NL]"
  let ?tail = "example_dumps (request_json ''D'' ''vm-b'')"
  let ?reads = "[take 7 ?tail]"
  have 1: "NL \<notin> set ?tail" by (simp add: example_simps)
  have 2: "NL \<notin> set (concat ?reads)" by (simp add: example_simps)
  have 3: "[] \<notin> set [?body @ ?tail] \<and> concat [?body @ ?tail] = ?body @ ?tail" by simp
  have 4: "NL \<notin> set (example_dumps GetDevices_to_json)" by (simp add: example_simps)
  have 5: "receive example_world [?body] = ([GetDevices_to_json], None)"
    using drain_line [OF 4, of example_world "[]"]
    by (simp add: receive_def drain_no_nl example_simps)
  have a: "receive example_world [?body @ ?tail] = receive example_world [?body]"
    and b: "receive example_world [?tail] = ([], None)"
    using unterminated_tail_discarded
            [OF 1 2, where chunks = "[?body @ ?tail]" and body = ?body and w = example_world] 3
    by blast+
  have c: "receive example_world ([?body] @ ?reads) = receive example_world [?body]"
    and d: "receive example_world ?reads = ([], None)"
    using unterminated_tail_discarded
            [OF 1 2, where chunks = "[?body]" and body = "[]" and w = example_world]
    by blast+
  from a b c d 5 show ?thesis by simp
qed

section \<open>The reconnecting client: properties\<close>

lemma connect_loop_live:
  "connect_ok w j \<Longrightarrow> k \<le> j \<Longrightarrow> \<exists>k'. connect_loop w k = Some k'"
proof (induction "j - k" arbitrary: k)
  case 0
  then have "k = j" by simp
  with 0 show ?case by (subst connect_loop.simps) simp
next
  case (Suc n)
  show ?case
  proof (cases "connect_ok w k")
    case True
    then show ?thesis by (subst connect_loop.simps) simp
  next
    case False
    from Suc have "n = j - Suc k" and "Suc k \<le> j" by simp_all
    with Suc.hyps(1) [of "Suc k"] Suc.prems obtain k' where "connect_loop w (Suc k) = Some k'"
      by blast
    with False show ?thesis by (subst connect_loop.simps) simp
  qed
qed

lemma server_live:
  assumes "\<forall>k. \<exists>j\<ge>k. connect_ok w j"
  shows "\<exists>c1. server w c = Some c1 \<and> chan c1 = chan c \<and> disconnects c1 = disconnects c"
proof (cases "conn c")
  case True
  then show ?thesis by (simp add: server_def)
next
  case False
  from assms obtain j where "connects c \<le> j" and "connect_ok w j" by blast
  then obtain k' where "connect_loop w (connects c) = Some k'"
    using connect_loop_live by blast
  with False show ?thesis by (simp add: server_def)
qed

lemma send_json:
  "send w (PyJson m) ch =
     (if write_ok w (writes ch)
      then (Inr (), ch\<lparr>writes := Suc (writes ch), wire := wire ch @ [json_dumps w m @ [NL]]\<rparr>)
      else (Inl OSError, ch\<lparr>writes := Suc (writes ch)\<rparr>))"
  by (simp add: send_def send_data_def)

lemma chan_close_connection: "chan (close_connection c) = chan c"
  by (simp add: close_connection_def)

lemma send_rounds_fail:
  assumes live: "\<forall>k. \<exists>j\<ge>k. connect_ok w j"
  shows "\<forall>i<n. \<not> write_ok w (writes (chan c) + i) \<Longrightarrow>
         \<exists>c'. send_rounds w n (PyJson m) c = Some (False, c')
             \<and> writes (chan c') = writes (chan c) + n \<and> wire (chan c') = wire (chan c)"
proof (induction n arbitrary: c)
  case 0
  then show ?case by simp
next
  case (Suc n)
  from server_live [OF live, of c] obtain c1 where c1: "server w c = Some c1" "chan c1 = chan c"
    by blast
  from Suc.prems have no: "\<not> write_ok w (writes (chan c))" by (metis add_0_right zero_less_Suc)
  let ?c2 = "close_connection (c1\<lparr>chan := (chan c)\<lparr>writes := Suc (writes (chan c))\<rparr>\<rparr>)"
  have w2: "writes (chan ?c2) = Suc (writes (chan c))" "wire (chan ?c2) = wire (chan c)"
    by (simp_all add: chan_close_connection)
  have "\<forall>i<n. \<not> write_ok w (writes (chan ?c2) + i)"
    using Suc.prems w2 by (metis Suc_less_eq add_Suc_shift)
  from Suc.IH [OF this] w2 obtain c' where
    "send_rounds w n (PyJson m) ?c2 = Some (False, c')"
    "writes (chan c') = Suc (writes (chan c)) + n" "wire (chan c') = wire (chan c)" by auto
  with c1 no show ?case by (simp add: send_json)
qed

lemma send_rounds_ok:
  assumes live: "\<forall>k. \<exists>j\<ge>k. connect_ok w j"
  shows "i < n \<Longrightarrow> write_ok w (writes (chan c) + i) \<Longrightarrow>
         \<exists>c'. send_rounds w n (PyJson m) c = Some (True, c')
             \<and> writes (chan c') \<le> writes (chan c) + n"
proof (induction n arbitrary: c i)
  case 0
  then show ?case by simp
next
  case (Suc n)
  from server_live [OF live, of c] obtain c1 where c1: "server w c = Some c1" "chan c1 = chan c"
    by blast
  show ?case
  proof (cases "write_ok w (writes (chan c))")
    case True
    with c1 show ?thesis by (simp add: send_json)
  next
    case False
    with Suc.prems obtain i' where i': "i = Suc i'" by (cases i) auto
    let ?c2 = "close_connection (c1\<lparr>chan := (chan c)\<lparr>writes := Suc (writes (chan c))\<rparr>\<rparr>)"
    have w2: "writes (chan ?c2) = Suc (writes (chan c))"
      by (simp add: chan_close_connection)
    from Suc.prems i' have "i' < n" "write_ok w (writes (chan ?c2) + i')"
      by (simp_all add: w2)
    from Suc.IH [OF this] w2 obtain c' where
      "send_rounds w n (PyJson m) ?c2 = Some (True, c')"
      "writes (chan c') \<le> Suc (writes (chan c)) + n" by auto
    with c1 False show ?thesis by (simp add: send_json)
  qed
qed

text \<open>
  C8 (bounded send retries). Provided the peer can always be reached again (every connect
  loop ends), a message that can be serialised is written at most five times: if the five
  writes all fail, \<open>send\<close> returns \<open>False\<close> after exactly five writes; if one of them
  succeeds, \<open>send\<close> returns \<open>True\<close>.
\<close>

theorem client_bounded_send_retries:
  assumes "\<forall>k. \<exists>j\<ge>k. connect_ok w j"
  shows "((\<forall>i<5. \<not> write_ok w (writes (chan c) + i)) \<longrightarrow>
            (\<exists>c'. VsockClient_send w (PyJson msg) c = Some (False, c')
                 \<and> writes (chan c') = writes (chan c) + 5))
       \<and> ((\<exists>i<5. write_ok w (writes (chan c) + i)) \<longrightarrow>
            (\<exists>c'. VsockClient_send w (PyJson msg) c = Some (True, c')
                 \<and> writes (chan c') \<le> writes (chan c) + 5))"
proof (intro conjI impI)
  assume "\<forall>i<5. \<not> write_ok w (writes (chan c) + i)"
  from send_rounds_fail [OF assms this, of msg]
  show "\<exists>c'. VsockClient_send w (PyJson msg) c = Some (False, c')
           \<and> writes (chan c') = writes (chan c) + 5"
    by (auto simp: VsockClient_send_def)
next
  assume "\<exists>i<5. write_ok w (writes (chan c) + i)"
  then obtain i where "i < 5" "write_ok w (writes (chan c) + i)" by blast
  from send_rounds_ok [OF assms this, of msg]
  show "\<exists>c'. VsockClient_send w (PyJson msg) c = Some (True, c')
           \<and> writes (chan c') \<le> writes (chan c) + 5"
    by (simp add: VsockClient_send_def)
qed


text \<open>
  Five writes failing, and the first two writes failing, with a peer that accepts every
  connection.
\<close>

theorem client_bounded_send_retries_witness:
  "(\<exists>c'. VsockClient_send (example_world\<lparr>write_ok := \<lambda>k. False\<rparr>) (PyJson GetDevices_to_json)
            example_client = Some (False, c') \<and> writes (chan c') = 5)
   \<and> (\<exists>c'. VsockClient_send (example_world\<lparr>write_ok := \<lambda>k. 2 \<le> k\<rparr>) (PyJson GetDevices_to_json)
            example_client = Some (True, c') \<and> writes (chan c') \<le> 5)"
proof -
  let ?w1 = "example_world\<lparr>write_ok := \<lambda>k. False\<rparr>"
  let ?w2 = "example_world\<lparr>write_ok := \<lambda>k. 2 \<le> k\<rparr>"
  have l1: "\<forall>k. \<exists>j\<ge>k. connect_ok ?w1 j" by (auto simp: example_world_def)
  have l2: "\<forall>k. \<exists>j\<ge>k. connect_ok ?w2 j" by (auto simp: example_world_def)
  have f: "\<forall>i<5. \<not> write_ok ?w1 (writes (chan example_client) + i)" by simp
  have s: "\<exists>i<5. write_ok ?w2 (writes (chan example_client) + i)"
    by (rule exI [of _ 2]) (simp add: example_client_def)
  from client_bounded_send_retries [OF l1, of example_client GetDevices_to_json] f
       client_bounded_send_retries [OF l2, of example_client GetDevices_to_json] s
  show ?thesis by (simp add: example_client_def)
qed


section \<open>Protocol messages: properties\<close>

lemmas msg_simps =
  get_message_type_def as_dict_def dict_get_def str_ok_def is_str_def the_str_def
  is_list_of_str_def the_list_def not_str_or_none_def opt_str_def opt_json_def

lemmas host_simps =
  example_world_def example_client_def example_host_def example_device_def request_json_def
  PassthroughRequest_to_json_def PassthroughRequest_from_message_def
  PassthroughRequest_from_payload_def PassthroughRequest_init_def

text \<open>
  C9, as first stated (an acknowledgement with a valid \<open>device_id\<close> and no \<open>status\<close> always
  decodes), fails: \<open>current_vm\<close> is checked as well, and a number there is rejected.
\<close>

theorem ack_with_bad_current_vm_rejected:
  "PassthroughAck_from_message
     (JObj [(''type'', JStr ''passthrough_ack''),
            (''payload'', JObj [(''device_id'', JStr ''D''), (''current_vm'', JInt 1)])])
   = Inl (ValueError ''current_vm'')"
  by (simp add: PassthroughAck_from_message_def PassthroughAck_from_payload_def msg_simps)

text \<open>
  C9. In a \<open>passthrough_ack\<close> envelope with payload \<open>pl\<close>: if \<open>pl\<close> holds a non-empty string
  \<open>device_id\<close> and no \<open>status\<close>, and \<open>current_vm\<close> (under either spelling) and \<open>reason\<close> are
  each absent, null or a string, decoding succeeds with status \<open>ok\<close>. Decoding fails when
  a status is present and is none of \<open>ok\<close>, \<open>denied\<close>, \<open>error\<close>, when \<open>current_vm\<close> is
  neither null nor a string, and when \<open>reason\<close> is neither null nor a string.
\<close>

theorem ack_status_default:
  assumes "map_of m ''type'' = Some (JStr ''passthrough_ack'')"
    and "map_of m ''payload'' = Some (JObj pl)"
  shows "(map_of pl ''device_id'' = Some (JStr d) \<and> d \<noteq> [] \<and> map_of pl ''status'' = None
          \<and> \<not> not_str_or_none (dict_get pl ''current_vm'' (dict_get pl ''current-vm'' JNull))
          \<and> \<not> not_str_or_none (dict_get pl ''reason'' JNull) \<longrightarrow>
            PassthroughAck_from_message (JObj m) =
              Inr (Some \<lparr>ack_device_id = d,
                         ack_current_vm = opt_str (dict_get pl ''current_vm'' (dict_get pl ''current-vm'' JNull)),
                         ack_status = ''ok''\<rparr>))
       \<and> (map_of pl ''status'' = Some s \<and> s \<notin> {JStr ''ok'', JStr ''denied'', JStr ''error''} \<longrightarrow>
            isl (PassthroughAck_from_message (JObj m)))
       \<and> (not_str_or_none (dict_get pl ''current_vm'' (dict_get pl ''current-vm'' JNull)) \<longrightarrow>
            isl (PassthroughAck_from_message (JObj m)))
       \<and> (not_str_or_none (dict_get pl ''reason'' JNull) \<longrightarrow>
            isl (PassthroughAck_from_message (JObj m)))"
  using assms
  by (auto simp: PassthroughAck_from_message_def PassthroughAck_from_payload_def
        PassthroughAck_init_def as_dict_def dict_get_def str_ok_def the_str_def
        split: option.splits json.splits sum.splits)

text \<open>
  An acknowledgement without \<open>status\<close>; one whose status is \<open>maybe\<close>; one whose
  \<open>current-vm\<close> is a boolean; one whose \<open>reason\<close> is a number.
\<close>

theorem ack_status_default_witness:
  "PassthroughAck_from_message
     (JObj [(''type'', JStr ''passthrough_ack''),
            (''payload'', JObj [(''device_id'', JStr ''D''), (''current_vm'', JStr ''vm-b'')])])
   = Inr (Some \<lparr>ack_device_id = ''D'', ack_current_vm = Some ''vm-b'', ack_status = ''ok''\<rparr>)
   \<and> isl (PassthroughAck_from_message
          (JObj [(''type'', JStr ''passthrough_ack''),
                 (''payload'', JObj [(''device_id'', JStr ''D''), (''status'', JStr ''maybe'')])]))
   \<and> isl (PassthroughAck_from_message
          (JObj [(''type'', JStr ''passthrough_ack''),
                 (''payload'', JObj [(''device_id'', JStr ''D''), (''current-vm'', JBool True)])]))
   \<and> isl (PassthroughAck_from_message
          (JObj [(''type'', JStr ''passthrough_ack''),
                 (''payload'', JObj [(''device_id'', JStr ''D''), (''reason'', JInt 7)])]))"
proof -
  let ?pl1 = "[(''device_id'', JStr ''D''), (''current_vm'', JStr ''vm-b'')]"
  let ?pl2 = "[(''device_id'', JStr ''D''), (''status'', JStr ''maybe'')]"
  let ?pl3 = "[(''device_id'', JStr ''D''), (''current-vm'', JBool True)]"
  let ?pl4 = "[(''device_id'', JStr ''D''), (''reason'', JInt 7)]"
  let ?m1 = "[(''type'', JStr ''passthrough_ack''), (''payload'', JObj ?pl1)]"
  let ?m2 = "[(''type'', JStr ''passthrough_ack''), (''payload'', JObj ?pl2)]"
  let ?m3 = "[(''type'', JStr ''passthrough_ack''), (''payload'', JObj ?pl3)]"
  let ?m4 = "[(''type'', JStr ''passthrough_ack''), (''payload'', JObj ?pl4)]"
  have a: "map_of ?m1 ''type'' = Some (JStr ''passthrough_ack'')"
    "map_of ?m1 ''payload'' = Some (JObj ?pl1)" by simp_all
  have b: "map_of ?m2 ''type'' = Some (JStr ''passthrough_ack'')"
    "map_of ?m2 ''payload'' = Some (JObj ?pl2)" by simp_all
  have c: "map_of ?m3 ''type'' = Some (JStr ''passthrough_ack'')"
    "map_of ?m3 ''payload'' = Some (JObj ?pl3)" by simp_all
  have d: "map_of ?m4 ''type'' = Some (JStr ''passthrough_ack'')"
    "map_of ?m4 ''payload'' = Some (JObj ?pl4)" by simp_all
  have h1: "map_of ?pl1 ''device_id'' = Some (JStr ''D'') \<and> ''D'' \<noteq> [] \<and> map_of ?pl1 ''status'' = None
          \<and> \<not> not_str_or_none (dict_get ?pl1 ''current_vm'' (dict_get ?pl1 ''current-vm'' JNull))
          \<and> \<not> not_str_or_none (dict_get ?pl1 ''reason'' JNull)"
    by (simp add: msg_simps)
  have h2: "map_of ?pl2 ''status'' = Some (JStr ''maybe'')
          \<and> JStr ''maybe'' \<notin> {JStr ''ok'', JStr ''denied'', JStr ''error''}"
    by simp
  have h3: "not_str_or_none (dict_get ?pl3 ''current_vm'' (dict_get ?pl3 ''current-vm'' JNull))"
    by (simp add: msg_simps)
  have h4: "not_str_or_none (dict_get ?pl4 ''reason'' JNull)"
    by (simp add: msg_simps)
  have r1: "PassthroughAck_from_message (JObj ?m1) =
      Inr (Some \<lparr>ack_device_id = ''D'', ack_current_vm = Some ''vm-b'', ack_status = ''ok''\<rparr>)"
    using ack_status_default [OF a, of "''D''" "JStr ''maybe''"] h1 by (simp add: msg_simps)
  have r2: "isl (PassthroughAck_from_message (JObj ?m2))"
    using ack_status_default [OF b, of "''D''" "JStr ''maybe''"] h2 by blast
  have r3: "isl (PassthroughAck_from_message (JObj ?m3))"
    using ack_status_default [OF c, of "''D''" "JStr ''maybe''"] h3 by blast
  have r4: "isl (PassthroughAck_from_message (JObj ?m4))"
    using ack_status_default [OF d, of "''D''" "JStr ''maybe''"] h4 by blast
  from r1 r2 r3 r4 show ?thesis by simp
qed

section \<open>Host service and guest mirror: properties\<close>

subsection \<open>Sends that reach the peer\<close>

text \<open>
  Announcing a new device, and answering \<open>get_devices\<close> on an empty registry: one line is
  written to the peer in each case.
\<close>

lemma new_device_is_announced:
  "notify_device_connected example_world ''E'' ''acme'' ''disk'' [''vm-a''] '''' example_host =
     Some (Inr True,
           example_host
             \<lparr>device_registry :=
                [(''D'', example_device),
                 (''E'', \<lparr>device_id = ''E'', vendor = ''acme'', product = ''disk'',
                          permitted_vms = [''vm-a''], current_vm = ''''\<rparr>)],
              gui_vm := example_client
                \<lparr>chan := \<lparr>writes = 1,
                            wire = [example_dumps
                                      (DeviceConnected_to_json
                                         \<lparr>dc_device_id = ''E'', dc_vendor = ''acme'',
                                          dc_product = ''disk'', dc_permitted_vms = [''vm-a''],
                                          dc_current_vm = Some ''''\<rparr>) @ [NL]]\<rparr>\<rparr>\<rparr>)"
  by (simp add: notify_device_connected_def DeviceConnected_init_def gui_vm_send_def
        VsockClient_send_def eval_nat_numeral server_def send_def send_data_def
        example_world_def example_client_def example_host_def example_device_def msg_simps
        list_all_def)

lemma get_devices_on_empty_registry:
  "handle_request example_world GetDevices_to_json (example_host\<lparr>device_registry := []\<rparr>) =
     Some (Inr (),
           example_host
             \<lparr>device_registry := [],
              gui_vm := example_client
                \<lparr>chan := \<lparr>writes = 1,
                            wire = [example_dumps (ConnectedDevices_to_json []) @ [NL]]\<rparr>\<rparr>\<rparr>)"
  by (simp add: handle_request_def gui_vm_send_def
        VsockClient_send_def eval_nat_numeral server_def send_def send_data_def
        example_world_def example_client_def example_host_def GetDevices_to_json_def msg_simps)

subsection \<open>Passthrough requests, reset and repeated announcements\<close>

text \<open>
  C1. The permitted request to move \<open>D\<close> from \<open>vm-a\<close> to \<open>vm-b\<close>, with a handler that
  succeeds: the registry entry is moved to \<open>vm-b\<close> and the handler is called once, but
  building the acknowledgement raises \<open>AttributeError\<close> in \<open>to_json\<close>, so the client is
  left as it was and nothing is written to the peer.
\<close>

theorem passthrough_success_sends_no_ack:
  "handle_request example_world (request_json ''D'' ''vm-b'') example_host =
     Some (Inl (AttributeError ''reason''),
           example_host\<lparr>device_registry := [(''D'', example_device\<lparr>current_vm := ''vm-b''\<rparr>)],
                        handler_calls := [(''D'', ''vm-b'')]\<rparr>)"
  by (simp add: handle_request_def notify_device_passthrough_def PassthroughAck_init_def
        PassthroughAck_to_json_def PassthroughAck_reason_def host_simps msg_simps)




text \<open>
  C3, as first stated (a request for the VM the device is on never reaches the external
  handler), fails: the handler is called before the registry is compared.
\<close>

theorem same_vm_request_invokes_handler:
  "handle_request example_world (request_json ''D'' ''vm-a'') example_host =
     Some (Inr (), example_host\<lparr>handler_calls := [(''D'', ''vm-a'')]\<rparr>)
   \<and> handler_calls (example_host\<lparr>handler_calls := [(''D'', ''vm-a'')]\<rparr>) \<noteq> handler_calls example_host"
  by (simp add: handle_request_def notify_device_passthrough_def host_simps msg_simps)

text \<open>
  C3. A passthrough request that names a registered device and the VM it is on now, on a
  host with a handler: the handler is called once with that device and VM, the registry is
  unchanged, and nothing is sent.
\<close>

theorem passthrough_same_vm:
  assumes "get_message_type msg = Inr (JStr ''passthrough_request'')"
    and "PassthroughRequest_from_message msg = Inr (Some r)"
    and "map_of (device_registry h) (req_device_id r) = Some d"
    and "req_target_vm r = current_vm d"
    and "passthrough_handler w = Some execute"
  shows "handle_request w msg h =
           Some (Inr (), h\<lparr>handler_calls := handler_calls h @ [(req_device_id r, req_target_vm r)]\<rparr>)"
  using assms by (simp add: handle_request_def notify_device_passthrough_def Let_def)

theorem passthrough_same_vm_witness:
  "handle_request example_world (request_json ''D'' ''vm-a'') example_host =
     Some (Inr (), example_host\<lparr>handler_calls := handler_calls example_host @ [(''D'', ''vm-a'')]\<rparr>)"
proof -
  let ?r = "\<lparr>req_device_id = ''D'', req_target_vm = ''vm-a''\<rparr>"
  have 1: "get_message_type (request_json ''D'' ''vm-a'') = Inr (JStr ''passthrough_request'')"
    by (simp add: host_simps msg_simps)
  have 2: "PassthroughRequest_from_message (request_json ''D'' ''vm-a'') = Inr (Some ?r)"
    by (simp add: host_simps msg_simps)
  have 3: "map_of (device_registry example_host) (req_device_id ?r) = Some example_device"
    by (simp add: host_simps)
  have 4: "req_target_vm ?r = current_vm example_device"
    by (simp add: host_simps)
  have 5: "passthrough_handler example_world = Some (\<lambda>dev_id target_vm. True)"
    by (simp add: host_simps)
  from passthrough_same_vm [OF 1 2 3 4 5] show ?thesis by simp
qed

text \<open>
  C4. \<open>reset\<close> on the example host: the registry is emptied, but every one of the five
  rounds of \<open>send\<close> fails on serialising the \<open>Reset\<close> instance, closing the connection each
  time; \<open>reset\<close> returns \<open>False\<close> and nothing has been written to the peer.
\<close>

theorem reset_sends_nothing:
  "reset example_world example_host =
     Some (Inr False,
           example_host\<lparr>device_registry := [],
                        gui_vm := example_client\<lparr>conn := False, connects := 5, disconnects := 5\<rparr>\<rparr>)
   \<and> wire (chan (example_client\<lparr>conn := False, connects := 5, disconnects := 5\<rparr>)) = []"
  by (simp add: reset_def gui_vm_send_def VsockClient_send_def eval_nat_numeral server_def
        close_connection_def send_def send_data_def connect_loop.simps host_simps)

text \<open>
  C5, as first stated (a second \<open>device_connected\<close> leaves the guest mirror equal to the
  first), fails: the mirror stores what the second message says.
\<close>

theorem mirror_overwrites_on_reconnect:
  "mirror (snd (on_msg (example_connected (Some ''vm-b''))
                  (snd (on_msg (example_connected (Some ''vm-a'')) \<lparr>mirror = []\<rparr>))))
   \<noteq> mirror (snd (on_msg (example_connected (Some ''vm-a'')) \<lparr>mirror = []\<rparr>))"
  by (simp add: on_msg_def example_connected_def DeviceConnected_to_json_def
        DeviceConnected_device_def DeviceConnected_from_message_def
        DeviceConnected_from_payload_def DeviceConnected_init_def msg_simps)

text \<open>
  C5. On the host, \<open>notify_device_connected\<close> for a device id that is in the registry
  returns \<open>True\<close> and changes nothing (nothing is sent either). On the guest, a
  \<open>device_connected\<close> message that decodes is handled without error and sets the entry of
  its device id to the device of the message, whether the id was present or not.
\<close>

theorem duplicate_device_connected:
  "(map_of (device_registry h) dev_id \<noteq> None \<longrightarrow>
      notify_device_connected w dev_id vend prd permitted cur h = Some (Inr True, h))
   \<and> (get_message_type msg = Inr (JStr ''device_connected'')
        \<and> DeviceConnected_from_message msg = Inr (Some dev) \<longrightarrow>
      on_msg msg g =
        (Inr (), g\<lparr>mirror := AList.update (dc_device_id dev) (DeviceConnected_device dev) (mirror g)\<rparr>))"
  by (simp add: notify_device_connected_def on_msg_def)

theorem duplicate_device_connected_witness:
  "notify_device_connected example_world ''D'' ''other'' ''thing'' [''vm-c''] ''vm-c'' example_host
     = Some (Inr True, example_host)
   \<and> on_msg (example_connected (Some ''vm-b''))
        (snd (on_msg (example_connected (Some ''vm-a'')) \<lparr>mirror = []\<rparr>))
     = (Inr (), \<lparr>mirror = [(''D'', DeviceConnected_device
                                  \<lparr>dc_device_id = ''D'', dc_vendor = ''acme'', dc_product = ''stick'',
                                   dc_permitted_vms = [''vm-a'', ''vm-b''],
                                   dc_current_vm = Some ''vm-b''\<rparr>)]\<rparr>)"
proof -
  let ?dev = "\<lparr>dc_device_id = ''D'', dc_vendor = ''acme'', dc_product = ''stick'',
               dc_permitted_vms = [''vm-a'', ''vm-b''], dc_current_vm = Some ''vm-b''\<rparr>"
  let ?g = "snd (on_msg (example_connected (Some ''vm-a'')) \<lparr>mirror = []\<rparr>)"
  have h: "map_of (device_registry example_host) ''D'' \<noteq> None"
    by (simp add: host_simps)
  have m: "get_message_type (example_connected (Some ''vm-b'')) = Inr (JStr ''device_connected'')
           \<and> DeviceConnected_from_message (example_connected (Some ''vm-b'')) = Inr (Some ?dev)"
    by (simp add: example_connected_def DeviceConnected_to_json_def DeviceConnected_device_def
          DeviceConnected_from_message_def DeviceConnected_from_payload_def
          DeviceConnected_init_def msg_simps)
  have g: "mirror ?g = [(''D'', DeviceConnected_device
                                  \<lparr>dc_device_id = ''D'', dc_vendor = ''acme'', dc_product = ''stick'',
                                   dc_permitted_vms = [''vm-a'', ''vm-b''],
                                   dc_current_vm = Some ''vm-a''\<rparr>)]"
    by (simp add: on_msg_def example_connected_def DeviceConnected_to_json_def
          DeviceConnected_device_def DeviceConnected_from_message_def
          DeviceConnected_from_payload_def DeviceConnected_init_def msg_simps)
  from duplicate_device_connected
         [of example_host "''D''" example_world "''other''" "''thing''" "[''vm-c'']" "''vm-c''"
             "example_connected (Some ''vm-b'')" ?dev ?g] h m g
  show ?thesis by simp
qed

end
